theory Spec2Isabelle
  imports Main
begin

section \<open>Data model\<close>

text \<open>
  The repository layer of \<^verbatim>\<open>repository.py\<close> and the route handlers of
  \<^verbatim>\<open>routes.py\<close>, over a model of the ORM session they call.

  A column value is Python's \<^verbatim>\<open>None\<close>, an integer or a string. A model instance (and
  a stored row) is the list of its column names with their values; a keyword dictionary
  (\<^verbatim>\<open>keys\<close>, \<^verbatim>\<open>**kwargs\<close>, \<^verbatim>\<open>model_dump()\<close>) is a list of the same shape.
\<close>

datatype pyval = PyNone | PyInt int | PyStr string

type_synonym row = "(string \<times> pyval) list"

type_synonym kwargs = "(string \<times> pyval) list"

text \<open>
  Reading an attribute of an instance. A column the instance holds no entry for reads as
  \<^verbatim>\<open>None\<close>, the default a model gives an unset attribute.
\<close>

definition attr :: "row \<Rightarrow> string \<Rightarrow> pyval" where
  "attr r k = (case map_of r k of None \<Rightarrow> PyNone | Some v \<Rightarrow> v)"

text \<open>
  What \<^verbatim>\<open>BaseRepository\<close> holds: \<^verbatim>\<open>_model_type\<close>, of which the code reads the column
  names (\<^verbatim>\<open>inspect(model_type).attrs\<close>) and the primary-key names
  (\<^verbatim>\<open>inspect(model_type).primary_key\<close>), and \<^verbatim>\<open>engine\<close>, the backing store. Of the
  store the model keeps what an insert or update can be refused for: a primary key that
  exists (refused with the message \<open>duplicate_key\<close>) and the other constraints of the
  schema (\<open>constraints rows r\<close> is the message of a constraint that \<open>r\<close> violates next
  to the rows \<open>rows\<close>, if there is one).
\<close>

record repository =
  columns :: "string list"
  primary_key :: "string list"
  constraints :: "row list \<Rightarrow> row \<Rightarrow> string option"
  duplicate_key :: "row \<Rightarrow> string"

text \<open>
  Exceptions. \<open>NotFoundError\<close> is the repository's own and carries the keys of its
  message; \<open>IntegrityError\<close> is the ORM's and carries \<^verbatim>\<open>e.orig.args[0]\<close>, the message
  of the database; \<open>HTTPException\<close> carries \<^verbatim>\<open>status_code\<close> and \<^verbatim>\<open>detail\<close>.
  \<open>OtherError\<close> stands for every other exception (\<^verbatim>\<open>TypeError\<close>, \<^verbatim>\<open>ValueError\<close>,
  the ORM's \<^verbatim>\<open>InvalidRequestError\<close>), none of which any handler of the source catches.
\<close>

datatype error =
    NotFoundError kwargs
  | IntegrityError string
  | IndexError
  | OtherError
  | HTTPException nat string

text \<open>
  What a repository method returns: \<^verbatim>\<open>None\<close>, one instance or a list of instances.
  \<open>truthy\<close> is Python's truth value of it, as \<^verbatim>\<open>if res:\<close> and \<^verbatim>\<open>if item:\<close> test it.
\<close>

datatype result = RNone | RItem row | RList "row list"

fun truthy :: "result \<Rightarrow> bool" where
  "truthy RNone = False"
| "truthy (RItem r) = True"
| "truthy (RList rs) = (rs \<noteq> [])"

section \<open>The ORM session\<close>

text \<open>
  The state of the backing store and of the sessions opened on it.
  \<^item> \<open>table\<close>: the committed rows of the entity's table.
  \<^item> \<open>units\<close>: for each session, its unit of work: the changes registered with the
    session and not yet flushed.
  \<^item> \<open>events\<close>: the log of sessions opened, committed and closed, in order.
  \<^item> \<open>opened\<close>: how many sessions were opened so far; the next session gets this number.

  A session flushes its unit of work when it commits; a flush that the store refuses
  raises \<open>IntegrityError\<close> and writes nothing. Reads consult the committed table: a
  method of the repository reads through its session only before it registers a change
  with it or after it has committed.
  Values that the store would generate itself (defaults, autoincrement) are not modelled:
  a row is stored as it was given.
\<close>

datatype change = Insert row | Update row row | Delete row

datatype event = SessionOpened nat | SessionCommitted nat | SessionClosed nat

record database =
  table :: "row list"
  units :: "nat \<Rightarrow> change list"
  events :: "event list"
  opened :: nat

definition pk_of :: "repository \<Rightarrow> row \<Rightarrow> pyval list" where
  "pk_of repo r = map (attr r) (primary_key repo)"

definition same_pk :: "repository \<Rightarrow> row \<Rightarrow> row \<Rightarrow> bool" where
  "same_pk repo r x = (pk_of repo x = pk_of repo r)"

text \<open>The store's verdict on a new row: the message it refuses the row with, if it does.\<close>

definition violation :: "repository \<Rightarrow> row list \<Rightarrow> row \<Rightarrow> string option" where
  "violation repo rows r =
     (if list_ex (same_pk repo r) rows then Some (duplicate_key repo r)
      else constraints repo rows r)"

text \<open>
  One change of a unit of work, as the SQL statement it flushes to: \<^verbatim>\<open>INSERT\<close>,
  \<^verbatim>\<open>UPDATE ... WHERE pk = ...\<close> (none when no attribute has changed) and
  \<^verbatim>\<open>DELETE ... WHERE pk = ...\<close>.
\<close>

fun apply_change :: "repository \<Rightarrow> change \<Rightarrow> row list \<Rightarrow> error + row list" where
  "apply_change repo (Insert r) rows =
     (case violation repo rows r of
        Some msg \<Rightarrow> Inl (IntegrityError msg)
      | None \<Rightarrow> Inr (rows @ [r]))"
| "apply_change repo (Update old new) rows =
     (if new = old then Inr rows
      else case violation repo (filter (\<lambda>x. \<not> same_pk repo old x) rows) new of
        Some msg \<Rightarrow> Inl (IntegrityError msg)
      | None \<Rightarrow> Inr (map (\<lambda>x. if same_pk repo old x then new else x) rows))"
| "apply_change repo (Delete r) rows = Inr (filter (\<lambda>x. \<not> same_pk repo r x) rows)"

fun flush :: "repository \<Rightarrow> change list \<Rightarrow> row list \<Rightarrow> error + row list" where
  "flush repo [] rows = Inr rows"
| "flush repo (c # cs) rows =
     (case apply_change repo c rows of
        Inl e \<Rightarrow> Inl e
      | Inr rows' \<Rightarrow> flush repo cs rows')"

text \<open>\<^verbatim>\<open>Session(engine)\<close>: a new session with an empty unit of work.\<close>

definition Session :: "database \<Rightarrow> nat \<times> database" where
  "Session db =
     (opened db,
      db\<lparr>units := (units db)(opened db := []),
         events := events db @ [SessionOpened (opened db)],
         opened := Suc (opened db)\<rparr>)"

text \<open>\<^verbatim>\<open>session.add(item)\<close>, \<^verbatim>\<open>session.delete(item)\<close>: registered, flushed at commit.\<close>

definition session_add :: "nat \<Rightarrow> row \<Rightarrow> database \<Rightarrow> database" where
  "session_add s item db = db\<lparr>units := (units db)(s := units db s @ [Insert item])\<rparr>"

definition session_delete :: "nat \<Rightarrow> row \<Rightarrow> database \<Rightarrow> database" where
  "session_delete s item db = db\<lparr>units := (units db)(s := units db s @ [Delete item])\<rparr>"

text \<open>
  \<^verbatim>\<open>item_db.sqlmodel_update(data)\<close>: every entry of \<open>data\<close> that names a field of the
  instance is assigned to it, the other entries are ignored. The instance belongs to the
  session \<open>s\<close>, which registers the modification.
\<close>

definition row_update :: "row \<Rightarrow> kwargs \<Rightarrow> row" where
  "row_update r data =
     map (\<lambda>(k, v). (k, case map_of data k of None \<Rightarrow> v | Some v' \<Rightarrow> v')) r"

definition sqlmodel_update :: "nat \<Rightarrow> row \<Rightarrow> kwargs \<Rightarrow> database \<Rightarrow> row \<times> database" where
  "sqlmodel_update s item_db data db =
     (row_update item_db data,
      db\<lparr>units := (units db)(s := units db s @ [Update item_db (row_update item_db data)])\<rparr>)"

text \<open>
  \<^verbatim>\<open>session.commit()\<close>: flush the unit of work and commit. When the flush is refused
  the table stays as it was and the exception propagates.
\<close>

definition session_commit :: "repository \<Rightarrow> nat \<Rightarrow> database \<Rightarrow> (error + unit) \<times> database" where
  "session_commit repo s db =
     (case flush repo (units db s) (table db) of
        Inl e \<Rightarrow> (Inl e, db)
      | Inr rows \<Rightarrow>
          (Inr (),
           db\<lparr>table := rows,
              units := (units db)(s := []),
              events := events db @ [SessionCommitted s]\<rparr>))"

text \<open>Leaving the \<^verbatim>\<open>with\<close> block closes the session; what it had not committed is dropped.\<close>

definition session_close :: "nat \<Rightarrow> database \<Rightarrow> database" where
  "session_close s db =
     db\<lparr>units := (units db)(s := []), events := events db @ [SessionClosed s]\<rparr>"

text \<open>
  \<^verbatim>\<open>session.get(entity, ident=keys)\<close> with a dictionary: the value of every primary-key
  column is taken from the dictionary (a missing one is an \<^verbatim>\<open>InvalidRequestError\<close>) and
  the row with that primary key is returned, or \<^verbatim>\<open>None\<close>.
\<close>

definition session_get :: "repository \<Rightarrow> kwargs \<Rightarrow> database \<Rightarrow> error + result" where
  "session_get repo ident db =
     (if list_ex (\<lambda>k. map_of ident k = None) (primary_key repo) then Inl OtherError
      else case List.find (same_pk repo ident) (table db) of
        None \<Rightarrow> Inr RNone
      | Some r \<Rightarrow> Inr (RItem r))"

text \<open>
  \<^verbatim>\<open>session.query(model).filter_by(**filter_by).all()\<close>: the rows whose columns equal
  every value of \<open>filter_by\<close>; a name that is no column is an \<^verbatim>\<open>InvalidRequestError\<close>.
\<close>

definition matches :: "kwargs \<Rightarrow> row \<Rightarrow> bool" where
  "matches filter_by r = list_all (\<lambda>(k, v). attr r k = v) filter_by"

definition session_query_filter_by :: "repository \<Rightarrow> kwargs \<Rightarrow> database \<Rightarrow> error + result" where
  "session_query_filter_by repo filter_by db =
     (if list_ex (\<lambda>(k, v). k \<notin> set (columns repo)) filter_by then Inl OtherError
      else Inr (RList (filter (matches filter_by) (table db))))"

text \<open>
  \<^verbatim>\<open>session.refresh(item)\<close>: the attributes of the instance are loaded again from its
  row; an instance whose row is gone cannot be refreshed.
\<close>

definition session_refresh :: "repository \<Rightarrow> row \<Rightarrow> database \<Rightarrow> error + row" where
  "session_refresh repo item db =
     (case List.find (same_pk repo item) (table db) of
        None \<Rightarrow> Inl OtherError
      | Some r \<Rightarrow> Inr r)"

fun refresh_all :: "repository \<Rightarrow> row list \<Rightarrow> database \<Rightarrow> error + row list" where
  "refresh_all repo [] db = Inr []"
| "refresh_all repo (r # rs) db =
     (case session_refresh repo r db of
        Inl e \<Rightarrow> Inl e
      | Inr r' \<Rightarrow>
          (case refresh_all repo rs db of
             Inl e \<Rightarrow> Inl e
           | Inr rs' \<Rightarrow> Inr (r' # rs')))"

section \<open>The repository\<close>

text \<open>
  \<^verbatim>\<open>transactional\<close>, the decorator of every repository method. The caller's session is the
  last positional argument when that is a \<^verbatim>\<open>Session\<close>, else the keyword \<^verbatim>\<open>session\<close>,
  else there is none: here \<open>Some s\<close> or \<open>None\<close>. Without one the wrapper opens a session,
  calls the method with it, commits, refreshes what the method returned when that is
  truthy (each element of a list, else the instance) and returns it; the \<^verbatim>\<open>with\<close>
  block closes the session however it is left. With one the method is called as it is.
\<close>

definition refresh_result :: "repository \<Rightarrow> result \<Rightarrow> database \<Rightarrow> error + result" where
  "refresh_result repo res db =
     (if truthy res then
        (case res of
           RList rs \<Rightarrow>
             (case refresh_all repo rs db of Inl e \<Rightarrow> Inl e | Inr rs' \<Rightarrow> Inr (RList rs'))
         | RItem r \<Rightarrow>
             (case session_refresh repo r db of Inl e \<Rightarrow> Inl e | Inr r' \<Rightarrow> Inr (RItem r'))
         | RNone \<Rightarrow> Inr res)
      else Inr res)"

definition transactional ::
  "repository \<Rightarrow> (nat \<Rightarrow> database \<Rightarrow> (error + result) \<times> database) \<Rightarrow>
   nat option \<Rightarrow> database \<Rightarrow> (error + result) \<times> database" where
  "transactional repo origin_func session db =
     (case session of
        None \<Rightarrow>
          (case Session db of
             (s, db1) \<Rightarrow>
               (case origin_func s db1 of
                  (Inl e, db2) \<Rightarrow> (Inl e, session_close s db2)
                | (Inr res, db2) \<Rightarrow>
                    (case session_commit repo s db2 of
                       (Inl e, db3) \<Rightarrow> (Inl e, session_close s db3)
                     | (Inr u, db3) \<Rightarrow> (refresh_result repo res db3, session_close s db3))))
      | Some s \<Rightarrow> origin_func s db)"

text \<open>\<^verbatim>\<open>_get_keys_dict\<close>: the primary-key names zipped with the instance's values for them.\<close>

definition get_keys_dict :: "repository \<Rightarrow> row \<Rightarrow> kwargs" where
  "get_keys_dict repo item = map (\<lambda>k. (k, attr item k)) (primary_key repo)"

text \<open>\<^verbatim>\<open>item.model_dump()\<close>: the fields of the instance as a dictionary.\<close>

definition model_dump :: "row \<Rightarrow> kwargs" where
  "model_dump item = item"

definition add ::
  "repository \<Rightarrow> row \<Rightarrow> nat option \<Rightarrow> database \<Rightarrow> (error + result) \<times> database" where
  "add repo item =
     transactional repo (\<lambda>s db.
       case session_commit repo s (session_add s item db) of
         (Inl e, db1) \<Rightarrow> (Inl e, db1)
       | (Inr u, db1) \<Rightarrow>
           (case session_refresh repo item db1 of
              Inl e \<Rightarrow> (Inl e, db1)
            | Inr r \<Rightarrow> (Inr (RItem r), db1)))"

definition get ::
  "repository \<Rightarrow> kwargs \<Rightarrow> nat option \<Rightarrow> database \<Rightarrow> (error + result) \<times> database" where
  "get repo keys = transactional repo (\<lambda>s db. (session_get repo keys db, db))"

text \<open>
  \<^verbatim>\<open>find\<close> (here \<open>find_items\<close>, the name \<open>find\<close> being the list library's): the
  keyword arguments that are not \<^verbatim>\<open>None\<close> are the filter.
\<close>

definition find_items ::
  "repository \<Rightarrow> kwargs \<Rightarrow> nat option \<Rightarrow> database \<Rightarrow> (error + result) \<times> database" where
  "find_items repo kwargs =
     transactional repo (\<lambda>s db.
       (session_query_filter_by repo (filter (\<lambda>(k, v). v \<noteq> PyNone) kwargs) db, db))"

text \<open>
  \<^verbatim>\<open>delete\<close> looks the item up with \<^verbatim>\<open>self.get(keys)\<close>, to which it passes no session,
  and marks what it got as deleted in its own session.
\<close>

definition delete ::
  "repository \<Rightarrow> kwargs \<Rightarrow> nat option \<Rightarrow> database \<Rightarrow> (error + result) \<times> database" where
  "delete repo keys =
     transactional repo (\<lambda>s db.
       case get repo keys None db of
         (Inl e, db1) \<Rightarrow> (Inl e, db1)
       | (Inr item, db1) \<Rightarrow>
           (if truthy item then
              (case item of
                 RItem r \<Rightarrow> (Inr RNone, session_delete s r db1)
               | _ \<Rightarrow> (Inl OtherError, db1))
            else (Inl (NotFoundError keys), db1)))"

text \<open>\<^verbatim>\<open>update\<close> looks the item up in its own session and returns what it found.\<close>

definition update ::
  "repository \<Rightarrow> row \<Rightarrow> nat option \<Rightarrow> database \<Rightarrow> (error + result) \<times> database" where
  "update repo item =
     transactional repo (\<lambda>s db.
       case get repo (get_keys_dict repo item) (Some s) db of
         (Inl e, db1) \<Rightarrow> (Inl e, db1)
       | (Inr item_db, db1) \<Rightarrow>
           (if truthy item_db then
              (case item_db of
                 RItem r \<Rightarrow>
                   (case sqlmodel_update s r (model_dump item) db1 of
                      (r', db2) \<Rightarrow> (Inr (RItem r'), db2))
               | _ \<Rightarrow> (Inl OtherError, db1))
            else (Inr item_db, db1)))"

text \<open>
  \<^verbatim>\<open>patch\<close> searches with \<^verbatim>\<open>self.find(session, **keys)\<close>, which returns a list.
  \<^item> \<^verbatim>\<open>res is None\<close>: the message of the \<^verbatim>\<open>NotFoundError\<close> calls
    \<^verbatim>\<open>_get_keys_dict(**kwargs)\<close>, which takes one instance, so building it raises first.
  \<^item> \<^verbatim>\<open>len(res) > 1\<close>: a \<^verbatim>\<open>ValueError\<close>, or what building its message raises.
  \<^item> \<^verbatim>\<open>res[0]\<close> on the empty list is an \<^verbatim>\<open>IndexError\<close>.
\<close>

definition patch ::
  "repository \<Rightarrow> kwargs \<Rightarrow> kwargs \<Rightarrow> nat option \<Rightarrow> database \<Rightarrow> (error + result) \<times> database" where
  "patch repo keys kwargs =
     transactional repo (\<lambda>s db.
       case find_items repo keys (Some s) db of
         (Inl e, db1) \<Rightarrow> (Inl e, db1)
       | (Inr res, db1) \<Rightarrow>
           (case res of
              RNone \<Rightarrow> (Inl OtherError, db1)
            | RItem r \<Rightarrow> (Inl OtherError, db1)
            | RList rs \<Rightarrow>
                (if length rs > 1 then (Inl OtherError, db1)
                 else case rs of
                   [] \<Rightarrow> (Inl IndexError, db1)
                 | item_db # rest \<Rightarrow>
                     (case sqlmodel_update s item_db kwargs db1 of
                        (r', db2) \<Rightarrow> (Inr (RItem r'), db2)))))"

section \<open>The route handlers\<close>

text \<open>
  Each handler gets the request's parameters as the web framework has validated them and
  calls the repository with no session. \<open>default_patch\<close> gets the key parameters and the
  body \<open>item\<close>, whose fields that are \<^verbatim>\<open>None\<close> it leaves out
  (\<^verbatim>\<open>dict(exclude_none=True)\<close>); it has no handler for any exception.
\<close>

definition default_patch ::
  "repository \<Rightarrow> kwargs \<Rightarrow> kwargs \<Rightarrow> database \<Rightarrow> (error + result) \<times> database" where
  "default_patch repo keys item db =
     patch repo keys (filter (\<lambda>(k, v). v \<noteq> PyNone) item) None db"

definition default_delete ::
  "repository \<Rightarrow> kwargs \<Rightarrow> database \<Rightarrow> (error + result) \<times> database" where
  "default_delete repo kwargs db =
     (case delete repo kwargs None db of
        (Inl (NotFoundError ks), db') \<Rightarrow> (Inl (HTTPException 404 ''Item not found''), db')
      | other \<Rightarrow> other)"

definition default_put ::
  "repository \<Rightarrow> row \<Rightarrow> database \<Rightarrow> (error + result) \<times> database" where
  "default_put repo item db = update repo item None db"

definition default_post ::
  "repository \<Rightarrow> row \<Rightarrow> database \<Rightarrow> (error + result) \<times> database" where
  "default_post repo item db =
     (case add repo item None db of
        (Inl (IntegrityError msg), db') \<Rightarrow> (Inl (HTTPException 409 msg), db')
      | other \<Rightarrow> other)"

definition default_get ::
  "repository \<Rightarrow> kwargs \<Rightarrow> database \<Rightarrow> (error + result) \<times> database" where
  "default_get repo kwargs db =
     (case get repo kwargs None db of
        (Inr RNone, db') \<Rightarrow> (Inl (HTTPException 404 ''Item not found''), db')
      | other \<Rightarrow> other)"

definition default_find ::
  "repository \<Rightarrow> kwargs \<Rightarrow> database \<Rightarrow> (error + result) \<times> database" where
  "default_find repo kwargs db = find_items repo kwargs None db"

text \<open>
  The status of the response when an exception leaves the handler: the one of an
  \<^verbatim>\<open>HTTPException\<close>, and 500 (the web framework's default error response) for any other.
\<close>

fun error_status :: "error \<Rightarrow> nat" where
  "error_status (HTTPException code detail) = code"
| "error_status e = 500"







section \<open>An example entity\<close>

text \<open>
  A table of heroes with the key \<^verbatim>\<open>id\<close>, a name that must not be null and a nullable
  age, holding two rows; no session was opened on it yet.
\<close>

definition hero_repo :: repository where
  "hero_repo =
     \<lparr>columns = [''id'', ''name'', ''age''],
      primary_key = [''id''],
      constraints = (\<lambda>rows r.
        if attr r ''name'' = PyNone then Some ''NOT NULL constraint failed: hero.name''
        else None),
      duplicate_key = (\<lambda>r. ''UNIQUE constraint failed: hero.id'')\<rparr>"

definition hero1 :: row where
  "hero1 = [(''id'', PyInt 1), (''name'', PyStr ''Deadpond''), (''age'', PyNone)]"

definition hero2 :: row where
  "hero2 = [(''id'', PyInt 2), (''name'', PyStr ''Rusty-Man''), (''age'', PyInt 48)]"

definition hero3 :: row where
  "hero3 = [(''id'', PyInt 3), (''name'', PyStr ''Spider-Boy''), (''age'', PyInt 16)]"

definition hero_clone :: row where
  "hero_clone = [(''id'', PyInt 1), (''name'', PyStr ''Clone''), (''age'', PyNone)]"

definition hero2_older :: row where
  "hero2_older = [(''id'', PyInt 2), (''name'', PyStr ''Rusty-Man''), (''age'', PyInt 49)]"

definition hero_db :: database where
  "hero_db = \<lparr>table = [hero1, hero2], units = (\<lambda>s. []), events = [], opened = 0\<rparr>"

lemmas hero_defs = hero_repo_def hero_db_def hero1_def hero2_def hero3_def hero_clone_def
  hero2_older_def

lemmas session_defs = same_pk_def pk_of_def attr_def violation_def Session_def session_add_def
  session_delete_def row_update_def sqlmodel_update_def session_commit_def session_close_def
  session_get_def matches_def session_query_filter_by_def session_refresh_def
  refresh_result_def transactional_def get_keys_dict_def model_dump_def

lemmas repository_defs = add_def get_def find_items_def delete_def update_def patch_def
  default_patch_def default_delete_def default_put_def default_post_def default_get_def
  default_find_def

section \<open>Facts about sessions and lookups\<close>

lemma find_None_list_ex: "(List.find P xs = None) = (\<not> list_ex P xs)"
  by (auto simp: find_None_iff list_ex_iff)

lemma same_pk_cong: "pk_of repo a = pk_of repo b \<Longrightarrow> same_pk repo a = same_pk repo b"
  by (simp add: same_pk_def fun_eq_iff)

lemma find_Some_same_pk:
  assumes "List.find (same_pk repo a) rows = Some r"
  shows "List.find (same_pk repo r) rows = Some r"
proof -
  from assms have "same_pk repo a r"
    by (auto simp: find_Some_iff)
  then have "same_pk repo r = same_pk repo a"
    by (simp add: same_pk_def fun_eq_iff)
  with assms show ?thesis by simp
qed

lemma map_of_tabulate: "k \<in> set ks \<Longrightarrow> map_of (map (\<lambda>k. (k, f k)) ks) k = Some (f k)"
  by (induction ks) auto

lemma attr_get_keys_dict:
  "k \<in> set (primary_key repo) \<Longrightarrow> attr (get_keys_dict repo item) k = attr item k"
  by (simp add: get_keys_dict_def attr_def[of "map f xs" for f xs] map_of_tabulate)

lemma pk_of_get_keys_dict: "pk_of repo (get_keys_dict repo item) = pk_of repo item"
  by (simp add: pk_of_def attr_get_keys_dict)

lemma get_keys_dict_complete:
  "\<not> list_ex (\<lambda>k. map_of (get_keys_dict repo item) k = None) (primary_key repo)"
  by (auto simp: list_ex_iff get_keys_dict_def map_of_eq_None_iff image_iff)

lemma session_get_keys_dict:
  "session_get repo (get_keys_dict repo item) db =
     (case List.find (same_pk repo item) (table db) of
        None \<Rightarrow> Inr RNone | Some r \<Rightarrow> Inr (RItem r))"
  using get_keys_dict_complete[of repo item]
  by (simp add: session_get_def same_pk_cong[OF pk_of_get_keys_dict])

lemma get_Some: "get repo keys (Some s) db = (session_get repo keys db, db)"
  by (simp add: get_def transactional_def)

lemma session_get_refresh:
  "session_get repo keys db = Inr res \<Longrightarrow> table db' = table db \<Longrightarrow>
   refresh_result repo res db' = Inr res"
  by (auto simp: session_get_def refresh_result_def session_refresh_def find_Some_same_pk
           split: if_splits option.splits)

lemma session_get_table:
  "table db' = table db \<Longrightarrow> session_get repo keys db' = session_get repo keys db"
  by (simp add: session_get_def)

lemma transactional_None:
  "transactional repo f None db =
     (case f (opened db) (snd (Session db)) of
        (Inl e, db2) \<Rightarrow> (Inl e, session_close (opened db) db2)
      | (Inr res, db2) \<Rightarrow>
          (case session_commit repo (opened db) db2 of
             (Inl e, db3) \<Rightarrow> (Inl e, session_close (opened db) db3)
           | (Inr u, db3) \<Rightarrow> (refresh_result repo res db3, session_close (opened db) db3)))"
  by (simp add: transactional_def Session_def)

lemma Session_table: "table (snd (Session db)) = table db"
  by (simp add: Session_def)

lemma Session_units: "units (snd (Session db)) (opened db) = []"
  by (simp add: Session_def)

lemma commit_empty:
  "units db s = [] \<Longrightarrow>
   session_commit repo s db =
     (Inr (), db\<lparr>table := table db, units := (units db)(s := []),
                    events := events db @ [SessionCommitted s]\<rparr>)"
  by (simp add: session_commit_def)

lemma get_None_fst: "fst (get repo keys None db) = session_get repo keys db"
proof -
  let ?db1 = "snd (Session db)"
  have g: "session_get repo keys ?db1 = session_get repo keys db"
    by (rule session_get_table) (rule Session_table)
  show ?thesis
  proof (cases "session_get repo keys db")
    case (Inl e)
    then show ?thesis
      using g by (simp add: get_def transactional_None)
  next
    case (Inr res)
    then show ?thesis
      using g
      by (simp add: get_def transactional_None commit_empty Session_units
                    session_get_refresh[OF Inr] Session_table)
  qed
qed

lemma get_None_table: "table (snd (get repo keys None db)) = table db"
  by (cases "session_get repo keys (snd (Session db))")
     (simp_all add: get_def transactional_None commit_empty Session_units
                    session_close_def Session_table)

lemma get_None_units:
  "units (snd (get repo keys None db)) s = (if s = opened db then [] else units db s)"
  by (cases "session_get repo keys (snd (Session db))")
     (simp_all add: get_def transactional_None commit_empty Session_units
                    session_close_def, simp_all add: Session_def)

lemma session_get_cases:
  obtains (err) "session_get repo keys db = Inl OtherError"
  | (none) "session_get repo keys db = Inr RNone" "\<not> list_ex (same_pk repo keys) (table db)"
  | (item) r where "session_get repo keys db = Inr (RItem r)"
      "List.find (same_pk repo keys) (table db) = Some r"
proof (cases "list_ex (\<lambda>k. map_of keys k = None) (primary_key repo)")
  case True
  then show thesis by (simp add: err session_get_def)
next
  case False
  show thesis
  proof (cases "List.find (same_pk repo keys) (table db)")
    case None
    with False show thesis
      by (intro none) (simp_all add: session_get_def find_None_list_ex[symmetric])
  next
    case (Some r)
    with False show thesis
      by (intro item[of r]) (simp_all add: session_get_def)
  qed
qed

lemma nested_get:
  obtains d where "get repo keys None (snd (Session db)) = (session_get repo keys db, d)"
    "table d = table db" "units d (opened db) = []"
proof -
  let ?db1 = "snd (Session db)"
  have "fst (get repo keys None ?db1) = session_get repo keys db"
    by (simp add: get_None_fst session_get_table[OF Session_table])
  moreover have "table (snd (get repo keys None ?db1)) = table db"
    by (simp add: get_None_table Session_table)
  moreover have "units (snd (get repo keys None ?db1)) (opened db) = []"
    by (simp add: get_None_units) (simp add: Session_def)
  ultimately show thesis
    using that[of "snd (get repo keys None ?db1)"] by (metis prod.collapse)
qed

lemma delete_fst:
  "fst (delete repo keys None db) =
     (case session_get repo keys db of
        Inl e \<Rightarrow> Inl e
      | Inr RNone \<Rightarrow> Inl (NotFoundError keys)
      | Inr (RItem r) \<Rightarrow> Inr RNone
      | Inr (RList rs) \<Rightarrow> (if rs = [] then Inl (NotFoundError keys) else Inl OtherError))"
proof -
  obtain d where d: "get repo keys None (snd (Session db)) = (session_get repo keys db, d)"
    "table d = table db" "units d (opened db) = []"
    by (rule nested_get)
  show ?thesis
    by (cases rule: session_get_cases[of repo keys db])
       (simp_all add: delete_def transactional_None d session_delete_def session_commit_def
                      refresh_result_def)
qed

lemma delete_table:
  "table (snd (delete repo keys None db)) =
     (case session_get repo keys db of
        Inr (RItem r) \<Rightarrow> filter (\<lambda>x. \<not> same_pk repo r x) (table db)
      | _ \<Rightarrow> table db)"
proof -
  obtain d where d: "get repo keys None (snd (Session db)) = (session_get repo keys db, d)"
    "table d = table db" "units d (opened db) = []"
    by (rule nested_get)
  show ?thesis
    by (cases rule: session_get_cases[of repo keys db])
       (simp_all add: delete_def transactional_None d session_delete_def session_commit_def
                      refresh_result_def session_close_def)
qed

lemma route_keys_complete:
  "map fst kwargs = primary_key repo \<Longrightarrow>
   \<not> list_ex (\<lambda>k. map_of kwargs k = None) (primary_key repo)"
proof -
  assume "map fst kwargs = primary_key repo"
  then have "set (primary_key repo) = fst ` set kwargs"
    by (metis set_map)
  then show ?thesis
    by (simp add: list_ex_iff map_of_eq_None_iff)
qed

lemma session_get_absent:
  assumes "map fst kwargs = primary_key repo"
    and "\<not> list_ex (same_pk repo kwargs) (table db)"
  shows "session_get repo kwargs db = Inr RNone"
  using route_keys_complete[OF assms(1)] assms(2)
  by (simp add: session_get_def find_None_list_ex[symmetric])

lemma default_get_404:
  "fst (get repo kwargs None db) = Inr RNone \<Longrightarrow>
   fst (default_get repo kwargs db) = Inl (HTTPException 404 ''Item not found'')"
  by (cases "get repo kwargs None db") (simp add: default_get_def)

lemma default_get_item:
  "fst (get repo kwargs None db) = Inr (RItem r) \<Longrightarrow>
   fst (default_get repo kwargs db) = Inr (RItem r)"
  by (cases "get repo kwargs None db") (simp add: default_get_def)

lemma default_delete_snd: "snd (default_delete repo kwargs db) = snd (delete repo kwargs None db)"
  by (cases "delete repo kwargs None db")
     (simp add: default_delete_def split: sum.splits error.splits)

lemma find_filter_out: "(\<And>x. P x \<Longrightarrow> \<not> Q x) \<Longrightarrow> List.find P (filter Q xs) = None"
  by (auto simp: find_None_iff)

lemma update_None:
  "fst (update repo item None db) =
     (case List.find (same_pk repo item) (table db) of
        None \<Rightarrow> Inr RNone
      | Some old \<Rightarrow>
          (case apply_change repo (Update old (row_update old item)) (table db) of
             Inl e \<Rightarrow> Inl e
           | Inr rows \<Rightarrow>
               (case List.find (same_pk repo (row_update old item)) rows of
                  None \<Rightarrow> Inl OtherError
                | Some r \<Rightarrow> Inr (RItem r)))) \<and>
   table (snd (update repo item None db)) =
     (case List.find (same_pk repo item) (table db) of
        None \<Rightarrow> table db
      | Some old \<Rightarrow>
          (case apply_change repo (Update old (row_update old item)) (table db) of
             Inl e \<Rightarrow> table db
           | Inr rows \<Rightarrow> rows))"
proof (cases "List.find (same_pk repo item) (table db)")
  case None
  then show ?thesis
    by (simp add: update_def transactional_None get_Some session_get_keys_dict Session_table
                  commit_empty Session_units refresh_result_def session_close_def)
next
  case (Some old)
  show ?thesis
  proof (cases "apply_change repo (Update old (row_update old item)) (table db)")
    case (Inl e)
    with Some show ?thesis
      by (simp add: update_def transactional_None get_Some session_get_keys_dict Session_table
                    sqlmodel_update_def model_dump_def session_commit_def Session_units
                    session_close_def del: apply_change.simps)
  next
    case (Inr rows)
    with Some show ?thesis
      by (simp add: update_def transactional_None get_Some session_get_keys_dict Session_table
                    sqlmodel_update_def model_dump_def session_commit_def Session_units
                    session_close_def refresh_result_def session_refresh_def
               del: apply_change.simps split: option.splits)
  qed
qed

lemma find_append_new:
  "\<not> list_ex P xs \<Longrightarrow> P x \<Longrightarrow> List.find P (xs @ [x]) = Some x"
  by (induction xs) auto

lemma same_pk_refl: "same_pk repo r r"
  by (simp add: same_pk_def)

lemma violation_None_fresh:
  "violation repo rows r = None \<Longrightarrow> \<not> list_ex (same_pk repo r) rows"
  by (simp add: violation_def split: if_splits)

lemma add_None:
  "fst (add repo item None db) =
     (case violation repo (table db) item of
        Some msg \<Rightarrow> Inl (IntegrityError msg)
      | None \<Rightarrow> Inr (RItem item)) \<and>
   table (snd (add repo item None db)) =
     (case violation repo (table db) item of
        Some msg \<Rightarrow> table db
      | None \<Rightarrow> table db @ [item])"
proof (cases "violation repo (table db) item")
  case None
  then have "List.find (same_pk repo item) (table db @ [item]) = Some item"
    by (intro find_append_new violation_None_fresh same_pk_refl)
  with None show ?thesis
    by (simp add: add_def transactional_None session_add_def session_commit_def Session_units
                  Session_table session_refresh_def refresh_result_def session_close_def)
next
  case (Some msg)
  then show ?thesis
    by (simp add: add_def transactional_None session_add_def session_commit_def Session_units
                  Session_table session_close_def)
qed

lemma map_of_row_update:
  "map_of (row_update r data) k =
     (case map_of r k of
        None \<Rightarrow> None
      | Some v \<Rightarrow> (case map_of data k of None \<Rightarrow> Some v | Some v' \<Rightarrow> Some v'))"
  by (induction r) (auto simp: row_update_def split: option.splits)

lemma attr_row_update:
  "attr (row_update r data) k =
     (case map_of r k of
        None \<Rightarrow> PyNone
      | Some v \<Rightarrow> (case map_of data k of None \<Rightarrow> v | Some v' \<Rightarrow> v'))"
  by (simp add: attr_def map_of_row_update split: option.splits)

lemma pk_of_row_update:
  assumes "pk_of repo old = pk_of repo item"
  shows "pk_of repo (row_update old item) = pk_of repo item"
proof -
  have "attr (row_update old item) k = attr item k" if "attr old k = attr item k" for k
    using that unfolding attr_row_update by (auto simp: attr_def split: option.splits)
  with assms show ?thesis
    by (simp add: pk_of_def)
qed

lemma row_update_columns: "map fst (row_update r data) = map fst r"
  by (simp add: row_update_def case_prod_unfold)

lemma row_update_skip:
  "fst b \<notin> fst ` set r \<Longrightarrow> row_update r (b # data) = row_update r data"
  by (induction r) (auto simp: row_update_def)

lemma row_update_same_columns:
  "map fst r = map fst data \<Longrightarrow> distinct (map fst data) \<Longrightarrow> row_update r data = data"
proof (induction r arbitrary: data)
  case Nil
  then show ?case by (simp add: row_update_def)
next
  case (Cons a r)
  then obtain b data' where d: "data = b # data'" "fst a = fst b" "map fst r = map fst data'"
    by (cases data) auto
  with Cons.prems have nin: "fst b \<notin> set (map fst data')" and dist: "distinct (map fst data')"
    by auto
  from nin d(3) have "fst b \<notin> fst ` set r"
    by (metis set_map)
  then have "row_update r data = row_update r data'"
    unfolding d(1) by (rule row_update_skip)
  also have "\<dots> = data'"
    using Cons.IH[OF d(3) dist] .
  finally have tl: "row_update r data = data'" .
  have "row_update (a # r) data = (fst a, snd b) # row_update r data"
    using d(2) by (cases a; cases b) (simp add: row_update_def d(1))
  with tl d(2) show ?case
    by (simp add: d(1))
qed

lemma has_column: "k \<in> set (map fst r) \<Longrightarrow> \<exists>v. map_of r k = Some v"
  by (cases "map_of r k") (auto simp: map_of_eq_None_iff)

lemma find_replace:
  "List.find P xs = Some old \<Longrightarrow> P new \<Longrightarrow>
   List.find P (map (\<lambda>x. if P x then new else x) xs) = Some new"
  by (induction xs) (auto split: if_splits)

lemma update_found:
  assumes "List.find (same_pk repo item) (table db) = Some old"
    and "fst (update repo item None db) = Inr res"
  shows "res = RItem (row_update old item) \<and>
         List.find (same_pk repo item) (table (snd (update repo item None db))) =
           Some (row_update old item)"
proof -
  let ?new = "row_update old item"
  from assms(1) have "same_pk repo item old"
    by (auto simp: find_Some_iff)
  then have pk_old: "pk_of repo old = pk_of repo item"
    by (simp add: same_pk_def)
  then have pk_new: "pk_of repo ?new = pk_of repo item"
    by (rule pk_of_row_update)
  have eq_old: "same_pk repo old = same_pk repo item"
    using pk_old by (rule same_pk_cong)
  have eq_new: "same_pk repo ?new = same_pk repo item"
    using pk_new by (rule same_pk_cong)
  have new: "same_pk repo item ?new"
    using pk_new by (simp add: same_pk_def)
  obtain rows where rows: "apply_change repo (Update old ?new) (table db) = Inr rows"
    using assms update_None[of repo item db]
    by (cases "apply_change repo (Update old ?new) (table db)") simp_all
  have "List.find (same_pk repo item) rows = Some ?new"
  proof (cases "?new = old")
    case True
    with rows assms(1) show ?thesis by simp
  next
    case False
    with rows have "rows = map (\<lambda>x. if same_pk repo item x then ?new else x) (table db)"
      by (auto simp: eq_old split: option.splits)
    with assms(1) new show ?thesis
      by (simp add: find_replace)
  qed
  with assms rows show ?thesis
    using update_None[of repo item db] by (simp add: eq_new)
qed

lemma find_distinct:
  "distinct (map f xs) \<Longrightarrow> r \<in> set xs \<Longrightarrow> List.find (\<lambda>x. f x = f r) xs = Some r"
  by (induction xs) (auto simp: image_iff)

lemma refresh_stored:
  "distinct (map (pk_of repo) (table db)) \<Longrightarrow> r \<in> set (table db) \<Longrightarrow>
   session_refresh repo r db = Inr r"
  using find_distinct[of "pk_of repo" "table db" r]
  by (simp add: session_refresh_def same_pk_def[abs_def])

lemma refresh_all_stored:
  "distinct (map (pk_of repo) (table db)) \<Longrightarrow> set rs \<subseteq> set (table db) \<Longrightarrow>
   refresh_all repo rs db = Inr rs"
  by (induction rs) (simp_all add: refresh_stored)

lemma refresh_result_stored:
  assumes "distinct (map (pk_of repo) (table db))" and "set rs \<subseteq> set (table db)"
  shows "refresh_result repo (RList rs) db = Inr (RList rs)"
  using refresh_all_stored[OF assms] by (simp add: refresh_result_def)

lemma find_items_None:
  assumes "distinct (map (pk_of repo) (table db))"
  shows "fst (find_items repo kwargs None db) =
           session_query_filter_by repo (filter (\<lambda>(k, v). v \<noteq> PyNone) kwargs) db"
proof -
  let ?fb = "filter (\<lambda>(k, v). v \<noteq> PyNone) kwargs"
  let ?db1 = "snd (Session db)"
  have q: "session_query_filter_by repo ?fb ?db1 = session_query_filter_by repo ?fb db"
    by (simp add: session_query_filter_by_def Session_table)
  show ?thesis
  proof (cases "list_ex (\<lambda>(k, v). k \<notin> set (columns repo)) ?fb")
    case True
    then show ?thesis
      by (simp add: find_items_def transactional_None q) (simp add: session_query_filter_by_def)
  next
    case False
    let ?rs = "filter (matches ?fb) (table db)"
    let ?db3 = "?db1\<lparr>table := table ?db1, units := (units ?db1)(opened db := []),
                     events := events ?db1 @ [SessionCommitted (opened db)]\<rparr>"
    from False have r: "session_query_filter_by repo ?fb db = Inr (RList ?rs)"
      by (simp add: session_query_filter_by_def)
    have "distinct (map (pk_of repo) (table ?db3))" "set ?rs \<subseteq> set (table ?db3)"
      using assms by (auto simp: Session_table)
    then have "refresh_result repo (RList ?rs) ?db3 = Inr (RList ?rs)"
      by (rule refresh_result_stored)
    then show ?thesis
      by (simp add: find_items_def transactional_None q r commit_empty Session_units)
  qed
qed

lemma matches_not_None:
  "matches (filter (\<lambda>(k, v). v \<noteq> PyNone) kwargs) r =
     (\<forall>(k, v)\<in>set kwargs. v \<noteq> PyNone \<longrightarrow> attr r k = v)"
  by (auto simp: matches_def list_all_iff)

text \<open>
  A PATCH whose keys select no row. \<open>patch\<close> searches with \<open>find\<close> in its own
  session, gets the empty list and indexes it.
\<close>

lemma find_items_Some:
  "find_items repo kwargs (Some s) db =
     (session_query_filter_by repo (filter (\<lambda>(k, v). v \<noteq> PyNone) kwargs) db, db)"
  by (simp add: find_items_def transactional_def)

lemma patch_absent_key:
  assumes "\<forall>(k, v)\<in>set keys. v \<noteq> PyNone \<longrightarrow> k \<in> set (columns repo)"
    and "\<not> list_ex (\<lambda>r. \<forall>(k, v)\<in>set keys. v \<noteq> PyNone \<longrightarrow> attr r k = v) (table db)"
  shows "fst (default_patch repo keys item db) = Inl IndexError"
proof -
  let ?fb = "filter (\<lambda>(k, v). v \<noteq> PyNone) keys"
  from assms(1) have "\<not> list_ex (\<lambda>(k, v). k \<notin> set (columns repo)) ?fb"
    by (auto simp: list_ex_iff)
  moreover from assms(2) have "filter (matches ?fb) (table db) = []"
    by (simp add: filter_empty_conv matches_not_None list_ex_iff)
  ultimately
  have "session_query_filter_by repo ?fb (snd (Session db)) = Inr (RList [])"
    by (simp add: session_query_filter_by_def Session_table)
  then show ?thesis
    by (simp add: default_patch_def patch_def transactional_None find_items_Some)
qed

text \<open>
  How many sessions an operation opens when it is called without one: \<open>delete\<close> two,
  whatever its input, every other operation one.
\<close>

lemma opened_commit: "opened (snd (session_commit repo s db)) = opened db"
  by (simp add: session_commit_def split: sum.splits)

lemma opened_transactional:
  assumes "\<And>s d. opened (snd (f s d)) = opened d"
  shows "opened (snd (transactional repo f None db)) = Suc (opened db)"
proof -
  let ?db1 = "snd (Session db)"
  obtain r d where f: "f (opened db) ?db1 = (r, d)"
    by (cases "f (opened db) ?db1")
  with assms[of "opened db" ?db1] have d: "opened d = Suc (opened db)"
    by (simp add: Session_def)
  show ?thesis
  proof (cases r)
    case (Inl e)
    with f d show ?thesis
      by (simp add: transactional_None session_close_def)
  next
    case (Inr res)
    obtain c d' where c: "session_commit repo (opened db) d = (c, d')"
      by (cases "session_commit repo (opened db) d")
    with opened_commit[of repo "opened db" d] d have "opened d' = Suc (opened db)"
      by simp
    with f Inr c show ?thesis
      by (cases c) (simp_all add: transactional_None session_close_def)
  qed
qed

lemma opened_get: "opened (snd (get repo keys None db)) = Suc (opened db)"
  by (cases "session_get repo keys (snd (Session db))")
     (simp_all add: get_def transactional_None commit_empty Session_units session_close_def,
      simp_all add: Session_def)

lemma opened_find_items: "opened (snd (find_items repo kwargs None db)) = Suc (opened db)"
  unfolding find_items_def by (rule opened_transactional) simp

lemma opened_add: "opened (snd (add repo item None db)) = Suc (opened db)"
  unfolding add_def
  by (rule opened_transactional)
     (simp add: session_commit_def session_add_def split: sum.splits)

lemma opened_update: "opened (snd (update repo item None db)) = Suc (opened db)"
  unfolding update_def
  by (rule opened_transactional)
     (simp add: get_Some sqlmodel_update_def split: sum.splits result.splits)

lemma opened_patch: "opened (snd (patch repo keys kwargs None db)) = Suc (opened db)"
  unfolding patch_def
  by (rule opened_transactional)
     (simp add: find_items_Some sqlmodel_update_def split: sum.splits result.splits list.splits)

lemma opened_delete: "opened (snd (delete repo keys None db)) = Suc (Suc (opened db))"
proof -
  let ?db1 = "snd (Session db)"
  obtain g d where g: "get repo keys None ?db1 = (g, d)"
    by (cases "get repo keys None ?db1")
  with opened_get[of repo keys ?db1] have d: "opened d = Suc (Suc (opened db))"
    by (simp add: Session_def)
  show ?thesis
  proof (cases g)
    case (Inl e)
    with g d show ?thesis
      by (simp add: delete_def transactional_None session_close_def)
  next
    case (Inr res)
    with g d show ?thesis
      by (cases res)
         (simp_all add: delete_def transactional_None session_close_def session_delete_def
                        session_commit_def split: sum.splits)
  qed
qed

section \<open>The claims\<close>

text \<open>
  C1. A PATCH whose key values match no stored record should answer with HTTP 404. It
  does not: \<open>find\<close> returns the empty list, which is not \<^verbatim>\<open>None\<close>, so \<^verbatim>\<open>res[0]\<close>
  raises \<^verbatim>\<open>IndexError\<close>; the handler catches nothing and the response is the
  framework's 500. Here on the hero table, for the key 7.
\<close>

theorem patch_absent_key_index_error:
  "fst (default_patch hero_repo [(''id'', PyInt 7)]
          [(''name'', PyStr ''Ghost''), (''age'', PyNone)] hero_db) = Inl IndexError \<and>
   error_status IndexError = 500 \<and>
   \<not> list_ex (same_pk hero_repo [(''id'', PyInt 7)]) (table hero_db)"
  by (simp add: hero_defs session_defs repository_defs)

text \<open>
  C2. When a POST has created a record, it returns that record, and a GET by the
  record's primary key on the resulting store returns it too.
\<close>

theorem post_then_get:
  assumes "fst (default_post repo item db) = Inr res"
  shows "res = RItem item \<and>
         fst (default_get repo (get_keys_dict repo item) (snd (default_post repo item db))) =
           Inr (RItem item)"
proof -
  let ?db' = "snd (add repo item None db)"
  have post: "default_post repo item db =
      (case fst (add repo item None db) of
         Inl (IntegrityError msg) \<Rightarrow> Inl (HTTPException 409 msg)
       | other \<Rightarrow> other, ?db')"
    by (cases "add repo item None db")
       (simp add: default_post_def split: sum.splits error.splits)
  have ok: "violation repo (table db) item = None"
    using assms add_None[of repo item db]
    by (cases "violation repo (table db) item") (simp_all add: post)
  then have res: "res = RItem item"
    using assms add_None[of repo item db] by (simp add: post)
  have "table ?db' = table db @ [item]"
    using ok add_None[of repo item db] by simp
  moreover have "List.find (same_pk repo item) (table db @ [item]) = Some item"
    using ok by (intro find_append_new violation_None_fresh same_pk_refl)
  ultimately have "session_get repo (get_keys_dict repo item) ?db' = Inr (RItem item)"
    by (simp add: session_get_keys_dict)
  then have "fst (default_get repo (get_keys_dict repo item) ?db') = Inr (RItem item)"
    by (simp add: default_get_item get_None_fst)
  with res show ?thesis
    by (simp add: post)
qed

theorem post_then_get_witness:
  "fst (default_post hero_repo hero3 hero_db) = Inr (RItem hero3) \<and>
   fst (default_get hero_repo (get_keys_dict hero_repo hero3)
          (snd (default_post hero_repo hero3 hero_db))) = Inr (RItem hero3)"
proof -
  have h: "fst (default_post hero_repo hero3 hero_db) = Inr (RItem hero3)"
    by (simp add: hero_defs session_defs repository_defs)
  from h post_then_get[OF h] show ?thesis
    by simp
qed

text \<open>
  C3. A POST whose record the store refuses with a message (\<open>violation\<close>: a primary
  key that exists, or another constraint of the schema) answers with HTTP 409 and that
  message as the detail, and the stored rows are as they were. A record whose primary
  key exists is always refused.
\<close>

theorem post_conflict_409:
  "(violation repo (table db) item = Some msg \<longrightarrow>
      fst (default_post repo item db) = Inl (HTTPException 409 msg) \<and>
      table (snd (default_post repo item db)) = table db) \<and>
   (list_ex (same_pk repo item) (table db) \<longrightarrow>
      violation repo (table db) item = Some (duplicate_key repo item))"
proof -
  have post: "default_post repo item db =
      (case fst (add repo item None db) of
         Inl (IntegrityError msg) \<Rightarrow> Inl (HTTPException 409 msg)
       | other \<Rightarrow> other, snd (add repo item None db))"
    by (cases "add repo item None db")
       (simp add: default_post_def split: sum.splits error.splits)
  show ?thesis
    using add_None[of repo item db] by (simp add: post violation_def)
qed

theorem post_conflict_409_witness:
  "list_ex (same_pk hero_repo hero_clone) (table hero_db) \<and>
   violation hero_repo (table hero_db) hero_clone = Some ''UNIQUE constraint failed: hero.id'' \<and>
   fst (default_post hero_repo hero_clone hero_db) =
     Inl (HTTPException 409 ''UNIQUE constraint failed: hero.id'') \<and>
   table (snd (default_post hero_repo hero_clone hero_db)) = [hero1, hero2]"
proof -
  have h: "list_ex (same_pk hero_repo hero_clone) (table hero_db)"
    by (simp add: hero_defs same_pk_def pk_of_def attr_def)
  have d: "duplicate_key hero_repo hero_clone = ''UNIQUE constraint failed: hero.id''"
    by (simp add: hero_repo_def)
  have t: "table hero_db = [hero1, hero2]"
    by (simp add: hero_db_def)
  note post = post_conflict_409[of hero_repo hero_db hero_clone
      "''UNIQUE constraint failed: hero.id''"]
  from post h d
  have v: "violation hero_repo (table hero_db) hero_clone =
             Some ''UNIQUE constraint failed: hero.id''"
    by simp
  with post
  have "fst (default_post hero_repo hero_clone hero_db) =
          Inl (HTTPException 409 ''UNIQUE constraint failed: hero.id'') \<and>
        table (snd (default_post hero_repo hero_clone hero_db)) = table hero_db"
    by blast
  with h v t show ?thesis
    by simp
qed

text \<open>
  C4. A GET by primary key and a DELETE whose key values match no stored record both
  answer with HTTP 404, and the failed DELETE leaves the stored rows as they were.
  The key parameters of both routes are the primary-key columns (their signatures are
  built from \<^verbatim>\<open>get_key_pairs\<close>), which is the first hypothesis.
\<close>

theorem get_delete_absent_404:
  assumes "map fst kwargs = primary_key repo"
    and "\<not> list_ex (same_pk repo kwargs) (table db)"
  shows "fst (default_get repo kwargs db) = Inl (HTTPException 404 ''Item not found'') \<and>
         fst (default_delete repo kwargs db) = Inl (HTTPException 404 ''Item not found'') \<and>
         table (snd (default_delete repo kwargs db)) = table db"
proof -
  have none: "session_get repo kwargs db = Inr RNone"
    using assms by (rule session_get_absent)
  have "fst (get repo kwargs None db) = Inr RNone"
    by (simp add: get_None_fst none)
  then have g: "fst (default_get repo kwargs db) = Inl (HTTPException 404 ''Item not found'')"
    by (cases "get repo kwargs None db") (simp add: default_get_def)
  have "fst (delete repo kwargs None db) = Inl (NotFoundError kwargs)"
    by (simp add: delete_fst none)
  moreover have "table (snd (delete repo kwargs None db)) = table db"
    by (simp add: delete_table none)
  ultimately have
    "fst (default_delete repo kwargs db) = Inl (HTTPException 404 ''Item not found'') \<and>
     table (snd (default_delete repo kwargs db)) = table db"
    by (cases "delete repo kwargs None db") (simp add: default_delete_def)
  with g show ?thesis by simp
qed

theorem get_delete_absent_404_witness:
  "map fst [(''id'', PyInt 7)] = primary_key hero_repo \<and>
   \<not> list_ex (same_pk hero_repo [(''id'', PyInt 7)]) (table hero_db) \<and>
   fst (default_get hero_repo [(''id'', PyInt 7)] hero_db) =
     Inl (HTTPException 404 ''Item not found'') \<and>
   fst (default_delete hero_repo [(''id'', PyInt 7)] hero_db) =
     Inl (HTTPException 404 ''Item not found'') \<and>
   table (snd (default_delete hero_repo [(''id'', PyInt 7)] hero_db)) = [hero1, hero2]"
proof -
  have h1: "map fst [(''id'', PyInt 7)] = primary_key hero_repo"
    by (simp add: hero_repo_def)
  have h2: "\<not> list_ex (same_pk hero_repo [(''id'', PyInt 7)]) (table hero_db)"
    by (simp add: hero_defs same_pk_def pk_of_def attr_def)
  have "table hero_db = [hero1, hero2]"
    by (simp add: hero_db_def)
  with h1 h2 get_delete_absent_404[OF h1 h2] show ?thesis
    by simp
qed

text \<open>
  C5. After a delete by primary key has succeeded, a fetch by the same key finds nothing:
  the repository's \<open>get\<close> returns \<^verbatim>\<open>None\<close> and the GET route answers 404.
\<close>

theorem delete_then_get_not_found:
  assumes "fst (delete repo keys None db) = Inr res"
  shows "fst (get repo keys None (snd (delete repo keys None db))) = Inr RNone \<and>
         fst (default_get repo keys (snd (default_delete repo keys db))) =
           Inl (HTTPException 404 ''Item not found'')"
proof -
  let ?db' = "snd (delete repo keys None db)"
  have "session_get repo keys ?db' = Inr RNone"
  proof (cases rule: session_get_cases[of repo keys db])
    case err
    with assms show ?thesis by (simp add: delete_fst)
  next
    case none
    with assms show ?thesis by (simp add: delete_fst)
  next
    case (item r)
    then have complete: "\<not> list_ex (\<lambda>k. map_of keys k = None) (primary_key repo)"
      by (auto simp: session_get_def split: if_splits)
    from item have "same_pk repo keys r"
      by (auto simp: find_Some_iff)
    then have "same_pk repo r = same_pk repo keys"
      by (simp add: same_pk_def fun_eq_iff)
    then have "List.find (same_pk repo keys) (table ?db') = None"
      by (simp add: delete_table item find_filter_out)
    with complete show ?thesis
      by (simp add: session_get_def)
  qed
  then have "fst (get repo keys None ?db') = Inr RNone"
    by (simp add: get_None_fst)
  then show ?thesis
    by (simp add: default_get_404 default_delete_snd)
qed

theorem delete_then_get_not_found_witness:
  "fst (delete hero_repo [(''id'', PyInt 1)] None hero_db) = Inr RNone \<and>
   fst (get hero_repo [(''id'', PyInt 1)] None
          (snd (delete hero_repo [(''id'', PyInt 1)] None hero_db))) = Inr RNone \<and>
   fst (default_get hero_repo [(''id'', PyInt 1)]
          (snd (default_delete hero_repo [(''id'', PyInt 1)] hero_db))) =
     Inl (HTTPException 404 ''Item not found'')"
proof -
  have h: "fst (delete hero_repo [(''id'', PyInt 1)] None hero_db) = Inr RNone"
    by (simp add: hero_defs session_defs repository_defs)
  from h delete_then_get_not_found[OF h] show ?thesis
    by simp
qed

text \<open>
  C6. When a PUT for the primary key of a stored record has succeeded and returned a
  record, a GET by that key on the resulting store returns the same record, and that
  record has the payload's value in every column the payload gives one for; when it has
  the payload's columns, it is the payload.
\<close>

theorem put_then_get:
  assumes "fst (default_put repo item db) = Inr (RItem x)"
  shows "fst (default_get repo (get_keys_dict repo item) (snd (default_put repo item db))) =
           Inr (RItem x) \<and>
         (\<forall>k\<in>set (map fst x). k \<in> set (map fst item) \<longrightarrow> attr x k = attr item k) \<and>
         (map fst x = map fst item \<and> distinct (map fst item) \<longrightarrow> x = item)"
proof -
  let ?db' = "snd (update repo item None db)"
  from assms have ok: "fst (update repo item None db) = Inr (RItem x)"
    by (simp add: default_put_def)
  then obtain old where old: "List.find (same_pk repo item) (table db) = Some old"
    using update_None[of repo item db]
    by (cases "List.find (same_pk repo item) (table db)") simp_all
  from update_found[OF old ok]
  have x: "x = row_update old item"
    and found: "List.find (same_pk repo item) (table ?db') = Some x"
    by simp_all
  from found have "session_get repo (get_keys_dict repo item) ?db' = Inr (RItem x)"
    by (simp add: session_get_keys_dict)
  then have g: "fst (default_get repo (get_keys_dict repo item) ?db') = Inr (RItem x)"
    by (simp add: default_get_item get_None_fst)
  have v: "\<forall>k\<in>set (map fst x). k \<in> set (map fst item) \<longrightarrow> attr x k = attr item k"
  proof (intro ballI impI)
    fix k
    assume "k \<in> set (map fst x)" "k \<in> set (map fst item)"
    then obtain v v' where "map_of old k = Some v" "map_of item k = Some v'"
      using has_column[of k old] has_column[of k item] by (auto simp: x row_update_columns)
    then show "attr x k = attr item k"
      by (simp add: x attr_row_update) (simp add: attr_def)
  qed
  have "x = item" if "map fst x = map fst item" "distinct (map fst item)"
    using that row_update_same_columns[of old item] by (simp add: x row_update_columns)
  with g v show ?thesis
    by (simp add: default_put_def)
qed

theorem put_then_get_witness:
  "fst (default_put hero_repo hero2_older hero_db) = Inr (RItem hero2_older) \<and>
   fst (default_get hero_repo (get_keys_dict hero_repo hero2_older)
          (snd (default_put hero_repo hero2_older hero_db))) = Inr (RItem hero2_older) \<and>
   attr hero2_older ''age'' = PyInt 49"
proof -
  have h: "fst (default_put hero_repo hero2_older hero_db) = Inr (RItem hero2_older)"
    by (simp add: hero_defs session_defs repository_defs)
  have "attr hero2_older ''age'' = PyInt 49"
    by (simp add: hero_defs attr_def)
  with h put_then_get[OF h] show ?thesis
    by simp
qed

text \<open>
  C7. The filtered search returns exactly the stored records that have the supplied
  value in every column a value is supplied for (a parameter left at \<^verbatim>\<open>None\<close>
  supplies none): every such record, in the order of the table, and no other. The
  primary keys of the stored rows are distinct, and the supplied parameters name columns,
  as the parameters of the route do.
\<close>

theorem find_exactly_matching:
  assumes "distinct (map (pk_of repo) (table db))"
    and "\<forall>(k, v)\<in>set kwargs. v \<noteq> PyNone \<longrightarrow> k \<in> set (columns repo)"
  shows "fst (default_find repo kwargs db) =
           Inr (RList (filter (\<lambda>r. \<forall>(k, v)\<in>set kwargs. v \<noteq> PyNone \<longrightarrow> attr r k = v)
                              (table db)))"
proof -
  from assms(2)
  have "\<not> list_ex (\<lambda>(k, v). k \<notin> set (columns repo)) (filter (\<lambda>(k, v). v \<noteq> PyNone) kwargs)"
    by (auto simp: list_ex_iff)
  then show ?thesis
    by (simp add: default_find_def find_items_None[OF assms(1)] session_query_filter_by_def
                  matches_not_None[abs_def])
qed

theorem find_exactly_matching_witness:
  "distinct (map (pk_of hero_repo) (table hero_db)) \<and>
   fst (default_find hero_repo
          [(''id'', PyNone), (''name'', PyStr ''Rusty-Man''), (''age'', PyNone)] hero_db) =
     Inr (RList [hero2])"
proof -
  let ?kwargs = "[(''id'', PyNone), (''name'', PyStr ''Rusty-Man''), (''age'', PyNone)]"
  have h1: "distinct (map (pk_of hero_repo) (table hero_db))"
    by (simp add: hero_defs pk_of_def attr_def)
  have h2: "\<forall>(k, v)\<in>set ?kwargs. v \<noteq> PyNone \<longrightarrow> k \<in> set (columns hero_repo)"
    by (simp add: hero_repo_def)
  from find_exactly_matching[OF h1 h2] h1 show ?thesis
    by (simp add: hero_defs attr_def)
qed

text \<open>
  C8. An operation called without a session should open exactly one session. \<open>delete\<close>
  opens two: the wrapper opens session 0 for it, and its lookup \<^verbatim>\<open>self.get(keys)\<close>,
  called without that session, opens session 1, which is committed and closed before
  session 0 deletes the row. Here deleting hero 1.
\<close>

theorem delete_opens_two_sessions:
  "fst (delete hero_repo [(''id'', PyInt 1)] None hero_db) = Inr RNone \<and>
   events (snd (delete hero_repo [(''id'', PyInt 1)] None hero_db)) =
     [SessionOpened 0, SessionOpened 1, SessionCommitted 1, SessionClosed 1,
      SessionCommitted 0, SessionClosed 0]"
  by (simp add: hero_defs session_defs repository_defs)




text \<open>
  C10. The filtered search leaves the parameters that are \<^verbatim>\<open>None\<close> out of the filter:
  it does what it does on the other parameters alone, and with every parameter
  \<^verbatim>\<open>None\<close> it returns all stored records.
\<close>

theorem find_ignores_None:
  assumes "distinct (map (pk_of repo) (table db))"
  shows "find_items repo kwargs = find_items repo (filter (\<lambda>(k, v). v \<noteq> PyNone) kwargs) \<and>
         ((\<forall>(k, v)\<in>set kwargs. v = PyNone) \<longrightarrow>
            fst (find_items repo kwargs None db) = Inr (RList (table db)))"
proof -
  have excluded: "find_items repo kwargs = find_items repo (filter (\<lambda>(k, v). v \<noteq> PyNone) kwargs)"
    by (simp add: find_items_def)
  have "fst (find_items repo kwargs None db) = Inr (RList (table db))"
    if "\<forall>(k, v)\<in>set kwargs. v = PyNone"
  proof -
    from that have "filter (\<lambda>(k, v). v \<noteq> PyNone) kwargs = []"
      by (auto simp: filter_empty_conv)
    then show ?thesis
      by (simp add: find_items_None[OF assms] session_query_filter_by_def matches_def)
  qed
  with excluded show ?thesis
    by blast
qed

theorem find_ignores_None_witness:
  "distinct (map (pk_of hero_repo) (table hero_db)) \<and>
   fst (find_items hero_repo [(''id'', PyNone), (''name'', PyNone), (''age'', PyNone)] None
          hero_db) = Inr (RList [hero1, hero2])"
proof -
  let ?kwargs = "[(''id'', PyNone), (''name'', PyNone), (''age'', PyNone)]"
  have h: "distinct (map (pk_of hero_repo) (table hero_db))"
    by (simp add: hero_defs pk_of_def attr_def)
  have n: "\<forall>(k, v)\<in>set ?kwargs. v = PyNone"
    by simp
  have t: "table hero_db = [hero1, hero2]"
    by (simp add: hero_db_def)
  from find_ignores_None[OF h, of ?kwargs] n
  have "fst (find_items hero_repo ?kwargs None hero_db) = Inr (RList (table hero_db))"
    by blast
  with h t show ?thesis
    by simp
qed

end
